theory Spec2Isabelle
  imports Main "HOL-Library.Word"
begin

unbundle bit_operations_syntax

section \<open>The JSA context interface (bridge/jsa/include/js\_context.h)\<close>

text \<open>
  The header declares the engine-independent context class \<open>JSContext\<close>, the RAII
  marker \<open>Scope\<close>, and the interfaces \<open>HostObject\<close> and \<open>ThreadScope\<close>. Three
  pieces of it have bodies in the header: \<open>JSContext::bindThreadScope\<close>,
  \<open>JSContext::threadScope\<close> and the class \<open>Scope\<close> (constructor, destructor,
  \<open>callInNewScope\<close>). They are embedded below as state-passing functions. Everything
  virtual is a parameter of the model.
\<close>

subsection \<open>Pointers\<close>

text \<open>
  A raw pointer \<open>T *\<close> is either \<open>nullptr\<close> or the address of an object; the
  objects themselves (\<open>ThreadScope\<close>, \<open>ScopeState\<close>) are opaque here and are
  represented by their identity.
\<close>

datatype 'a ptr = nullptr | Ptr 'a

datatype ThreadScope = ThreadScope nat

datatype ScopeState = ScopeState nat

text \<open>
  \<open>std::unique_ptr<T>\<close> owns one raw pointer. \<open>get\<close> reads it, and the comparison
  \<open>p == nullptr\<close> holds exactly when \<open>get\<close> is null.
\<close>

datatype 'a unique_ptr = unique_ptr (get: "'a ptr")

definition is_nullptr :: "'a unique_ptr \<Rightarrow> bool" where
  "is_nullptr p = (get p = nullptr)"

subsection \<open>JSContext: the thread scope slot\<close>

text \<open>
  The state of a context: whatever the concrete engine keeps behind the virtual methods
  (\<open>engine\<close>, of an arbitrary type), and the one data member the header declares,
  \<^verbatim>\<open>thread_scope_ptr_\<close> (an identifier cannot end with an underscore here, so the
  field is \<open>thread_scope_ptr\<close>).
\<close>

record 'e JSContext =
  engine :: 'e
  thread_scope_ptr :: "ThreadScope unique_ptr"

text \<open>
  The class declares no constructor, so a new context default-initialises its member:
  an empty \<open>unique_ptr\<close>.
\<close>

definition JSContext_new :: "'e \<Rightarrow> 'e JSContext" where
  "JSContext_new e = \<lparr>engine = e, thread_scope_ptr = unique_ptr nullptr\<rparr>"

text \<open>
  \<^verbatim>\<open>void bindThreadScope(std::unique_ptr<ThreadScope> threadScope) {
    thread_scope_ptr_ = std::move(threadScope);
  }\<close>
  Move assignment makes the member own the argument's pointer.
\<close>

definition bindThreadScope :: "ThreadScope unique_ptr \<Rightarrow> 'e JSContext \<Rightarrow> 'e JSContext" where
  "bindThreadScope threadScope rt = rt\<lparr>thread_scope_ptr := threadScope\<rparr>"

text \<open>
  \<^verbatim>\<open>ThreadScope *threadScope() const {
    if (thread_scope_ptr_ == nullptr) {
      return nullptr;
    }
    return thread_scope_ptr_.get();
  }\<close>
  Like every method of the model it returns its result together with the state of the
  context after the call.
\<close>

definition threadScope :: "'e JSContext \<Rightarrow> ThreadScope ptr \<times> 'e JSContext" where
  "threadScope rt =
     (if is_nullptr (thread_scope_ptr rt) then (nullptr, rt)
      else (get (thread_scope_ptr rt), rt))"

text \<open>
  The simpler function the header's \<open>threadScope\<close> is compared with: it returns
  \<^verbatim>\<open>thread_scope_ptr_.get()\<close> with no test.
\<close>

definition threadScope_get_only :: "'e JSContext \<Rightarrow> ThreadScope ptr \<times> 'e JSContext" where
  "threadScope_get_only rt = (get (thread_scope_ptr rt), rt)"

text \<open>A sequence of \<open>bindThreadScope\<close> calls, the first of the list first.\<close>

definition bindThreadScope_all :: "ThreadScope unique_ptr list \<Rightarrow> 'e JSContext \<Rightarrow> 'e JSContext" where
  "bindThreadScope_all ps rt = fold bindThreadScope ps rt"

subsection \<open>Exceptions\<close>

text \<open>
  What native code can throw, as far as the interface tells thrown objects apart:
  \<open>JSError\<close> (declared in the header; a JavaScript error seen from native code, with
  the class of the error and its message; the stack it also carries is left out, nothing
  below depends on it), any other class that extends \<open>std::exception\<close> (with the
  text its \<open>what()\<close> returns), and any other object.
\<close>

datatype error_class = GenericError | TypeError

datatype cpp_exception =
    JSError error_class string
  | StdException string
  | OtherException

subsection \<open>Scope\<close>

text \<open>
  How a call, a block or a whole run can end: it returns, it throws, or the program is
  terminated (\<open>std::terminate\<close>), after which nothing else runs.
\<close>

datatype 'a outcome = Returns 'a | Throws cpp_exception | Terminates

text \<open>
  \<^verbatim>\<open>virtual ScopeState *pushScope();
  virtual void popScope(ScopeState *);\<close>
  Both are virtual and protected: only the friends of \<open>JSContext\<close> can call them, and
  of the classes in the header only \<open>Scope\<close> does. The bodies an engine gives them
  are arbitrary functions on the context's state. Neither is declared \<open>noexcept\<close>:
  \<open>pushScope\<close> returns a pointer or throws, \<open>popScope\<close> returns or throws.
\<close>

record 'e JSContext_vtable =
  pushScope :: "'e JSContext \<Rightarrow> (cpp_exception + ScopeState ptr) \<times> 'e JSContext"
  popScope :: "ScopeState ptr \<Rightarrow> 'e JSContext \<Rightarrow> cpp_exception option \<times> 'e JSContext"

text \<open>
  To say how often and in which order a piece of code calls into the context, a run
  carries, next to the context, the list of the calls made so far (oldest first):
  \<open>rt.pushScope()\<close> with what came of it (the pointer it returned, or the exception
  it threw), \<open>rt.popScope(p)\<close> with its argument, and the call \<open>f()\<close> of the
  operation given to \<open>callInNewScope\<close>.
\<close>

datatype event =
    Call_pushScope "cpp_exception + ScopeState ptr"
  | Call_popScope "ScopeState ptr"
  | Call_f

record 'e run =
  ctx :: "'e JSContext"
  calls :: "event list"

definition call_pushScope ::
  "'e JSContext_vtable \<Rightarrow> 'e run \<Rightarrow> (cpp_exception + ScopeState ptr) \<times> 'e run" where
  "call_pushScope vt st =
     (let (r, rt') = pushScope vt (ctx st)
      in (r, \<lparr>ctx = rt', calls = calls st @ [Call_pushScope r]\<rparr>))"

definition call_popScope ::
  "'e JSContext_vtable \<Rightarrow> ScopeState ptr \<Rightarrow> 'e run \<Rightarrow> cpp_exception option \<times> 'e run" where
  "call_popScope vt p st =
     (let (x, rt') = popScope vt p (ctx st)
      in (x, \<lparr>ctx = rt', calls = calls st @ [Call_popScope p]\<rparr>))"

text \<open>
  \<^verbatim>\<open>class Scope {
  public:
    explicit Scope(JSContext &rt) : rt_(rt), prv_(rt.pushScope()) {}
    ~Scope() { rt_.popScope(prv_); };
    Scope(const Scope &) = delete;
    Scope(Scope &&) = delete;
    Scope &operator=(const Scope &) = delete;
    Scope &operator=(Scope &&) = delete;
    ...
  private:
    JSContext &rt_;
    JSContext::ScopeState *prv_;
  };\<close>
  The member \<^verbatim>\<open>rt_\<close> refers to the context of the run. With the copy and move
  operations deleted, a \<open>Scope\<close> is made by its constructor only and its \<open>prv\<close> is
  never assigned again.

  The constructor: when \<open>pushScope\<close> throws, the exception leaves the constructor and
  no \<open>Scope\<close> exists (so no destructor will run for it).
\<close>

record Scope =
  prv :: "ScopeState ptr"

definition Scope_ctor :: "'e JSContext_vtable \<Rightarrow> 'e run \<Rightarrow> (cpp_exception + Scope) \<times> 'e run" where
  "Scope_ctor vt st =
     (case call_pushScope vt st of
        (Inl x, st') \<Rightarrow> (Inl x, st')
      | (Inr p, st') \<Rightarrow> (Inr \<lparr>prv = p\<rparr>, st'))"

text \<open>
  The destructor is not declared \<open>noexcept(false)\<close>, so it is \<open>noexcept\<close>: an
  exception that leaves \<open>popScope\<close> cannot leave the destructor, and the program is
  terminated.
\<close>

definition Scope_dtor :: "'e JSContext_vtable \<Rightarrow> Scope \<Rightarrow> 'e run \<Rightarrow> unit outcome \<times> 'e run" where
  "Scope_dtor vt s st =
     (case call_popScope vt (prv s) st of
        (None, st') \<Rightarrow> (Returns (), st')
      | (Some x, st') \<Rightarrow> (Terminates, st'))"

text \<open>
  \<^verbatim>\<open>template <typename F>
  static auto callInNewScope(JSContext &rt, F f) -> decltype(f()) {
    Scope s(rt);
    return f();
  }\<close>
  The operation \<open>f\<close> works on the context and either returns a value (\<open>Inr\<close>) or
  throws (\<open>Inl\<close>). When the constructor of \<open>s\<close> throws, the function is left at
  once: \<open>f\<close> is not called and there is no \<open>s\<close> to destroy. Otherwise \<open>s\<close> is
  destroyed when the function is left, by \<open>return\<close> or by the exception of \<open>f\<close>.
\<close>

definition call_f ::
  "('e JSContext \<Rightarrow> (cpp_exception + 'a) \<times> 'e JSContext) \<Rightarrow> 'e run \<Rightarrow> (cpp_exception + 'a) \<times> 'e run" where
  "call_f f st =
     (let (r, rt') = f (ctx st) in (r, \<lparr>ctx = rt', calls = calls st @ [Call_f]\<rparr>))"

definition callInNewScope ::
  "'e JSContext_vtable \<Rightarrow> ('e JSContext \<Rightarrow> (cpp_exception + 'a) \<times> 'e JSContext) \<Rightarrow> 'e run
     \<Rightarrow> 'a outcome \<times> 'e run" where
  "callInNewScope vt f st =
     (case Scope_ctor vt st of
        (Inl x, st1) \<Rightarrow> (Throws x, st1)
      | (Inr s, st1) \<Rightarrow>
          (case call_f f st1 of
             (r, st2) \<Rightarrow>
               (case Scope_dtor vt s st2 of
                  (Terminates, st3) \<Rightarrow> (Terminates, st3)
                | (_, st3) \<Rightarrow> ((case r of Inl x \<Rightarrow> Throws x | Inr v \<Rightarrow> Returns v), st3))))"

subsection \<open>Code that nests Scopes\<close>




text \<open>
  An engine to run examples on: its state counts the scopes pushed so far,
  \<open>pushScope\<close> returns a fresh \<open>ScopeState\<close> each time, and neither call throws.
\<close>

definition counting_vtable :: "nat JSContext_vtable" where
  "counting_vtable =
     \<lparr>pushScope = (\<lambda>rt. (Inr (Ptr (ScopeState (engine rt))), rt\<lparr>engine := Suc (engine rt)\<rparr>)),
      popScope = (\<lambda>p rt. (None, rt))\<rparr>"

text \<open>An engine whose \<open>pushScope\<close> throws, and one whose \<open>popScope\<close> throws.\<close>

definition refusing_vtable :: "nat JSContext_vtable" where
  "refusing_vtable =
     \<lparr>pushScope = (\<lambda>rt. (Inl OtherException, rt)),
      popScope = (\<lambda>p rt. (None, rt))\<rparr>"

definition pop_throwing_vtable :: "nat JSContext_vtable" where
  "pop_throwing_vtable =
     \<lparr>pushScope = (\<lambda>rt. (Inr (Ptr (ScopeState (engine rt))), rt\<lparr>engine := Suc (engine rt)\<rparr>)),
      popScope = (\<lambda>p rt. (Some OtherException, rt))\<rparr>"

definition run0 :: "nat run" where
  "run0 = \<lparr>ctx = JSContext_new 0, calls = []\<rparr>"

text \<open>An operation that returns \<open>True\<close> and leaves the context as it is.\<close>

definition returning_True :: "nat JSContext \<Rightarrow> (cpp_exception + bool) \<times> nat JSContext" where
  "returning_True rt = (Inr True, rt)"



section \<open>Contracts the header only declares\<close>

text \<open>
  The header declares the handle classes, \<open>Value\<close>, the virtual methods of
  \<open>HostObject\<close> and the pure virtual operations of \<open>JSContext\<close>, and documents
  them in comments; their bodies are in other files of the repository. The definitions
  of this section follow the specification's description of them.
\<close>

subsection \<open>Handles and values\<close>

text \<open>
  The classes \<open>PropNameID\<close>, \<open>String\<close>, \<open>Symbol\<close>, \<open>Object\<close> and
  \<open>Value\<close> are declared in the header and defined elsewhere. By the spec (section
  3) a handle owns exactly one \<open>PointerValue\<close>, an engine-owned reference cell, and
  a \<open>Value\<close> is a tagged union over undefined, null, boolean, number (a double),
  String, Symbol and Object. A double is represented by its 64 bits.
\<close>

text \<open>
  Modelled from the spec: a \<open>PointerValue\<close>, the engine-owned reference cell
  (abstract in the header), represented by its identity.
\<close>

datatype PointerValue = PointerValue nat

text \<open>Modelled from the spec: a \<open>PropNameID\<close> handle, owning one cell.\<close>

datatype PropNameID = PropNameID (PropNameID_ptr: PointerValue)

text \<open>Modelled from the spec: a \<open>String\<close> handle, owning one cell.\<close>

datatype String = String (String_ptr: PointerValue)

text \<open>Modelled from the spec: a \<open>Symbol\<close> handle, owning one cell.\<close>

datatype Symbol = Symbol (Symbol_ptr: PointerValue)

text \<open>Modelled from the spec: an \<open>Object\<close> handle, owning one cell.\<close>

datatype Object = Object (Object_ptr: PointerValue)

type_synonym double = "64 word"

text \<open>
  Modelled from the spec: \<open>Value\<close>, the tagged union of section 3, with variants
  Undefined, Null, Boolean, Number, String, Symbol and Object.
\<close>

datatype Value =
    Undefined
  | Null
  | Boolean bool
  | Number double
  | StringValue String
  | SymbolValue Symbol
  | ObjectValue Object

subsection \<open>HostObject\<close>

text \<open>
  The header declares \<open>HostObject::get\<close>, \<open>HostObject::set\<close> and
  \<open>HostObject::getPropertyNames\<close> virtual and documents their defaults; the bodies
  are defined elsewhere.
\<close>

text \<open>
  Modelled from the spec: the body of \<open>HostObject::get\<close>. Spec, section 4.4: the
  default \<open>get\<close> returns undefined. The header's comment: by default this returns
  undefined.
\<close>

definition HostObject_get_default ::
  "'e JSContext \<Rightarrow> PropNameID \<Rightarrow> (cpp_exception + Value) \<times> 'e JSContext" where
  "HostObject_get_default rt name = (Inr Undefined, rt)"

text \<open>
  Modelled from the spec: the body of \<open>HostObject::set\<close>. Spec, section 4.4: the
  default \<open>set\<close> fails with a type-error-equivalent, mimicking a frozen strict-mode
  object. The header's comment: by default this throws a type error exception mimicking
  the behavior of a frozen object in strict mode. The text of the message is not given
  by the spec.
\<close>

definition HostObject_set_default ::
  "'e JSContext \<Rightarrow> PropNameID \<Rightarrow> Value \<Rightarrow> (cpp_exception + unit) \<times> 'e JSContext" where
  "HostObject_set_default rt name v =
     (Inl (JSError TypeError ''TypeError: Cannot assign to property on HostObject with default setter''), rt)"

text \<open>
  Modelled from the spec: the body of \<open>HostObject::getPropertyNames\<close>. Spec, section
  4.4: the default property enumeration returns an empty ordered sequence. The header's
  comment: the default implementation returns empty vector.
\<close>

definition HostObject_getPropertyNames_default ::
  "'e JSContext \<Rightarrow> (cpp_exception + PropNameID list) \<times> 'e JSContext" where
  "HostObject_getPropertyNames_default rt = (Inr [], rt)"

text \<open>
  A host object is an instance of a class derived from \<open>HostObject\<close>: for each of the
  three virtual methods it either overrides it or inherits the default. A call
  dispatches to the override when there is one.
\<close>

record 'e HostObject =
  get_override ::
    "('e JSContext \<Rightarrow> PropNameID \<Rightarrow> (cpp_exception + Value) \<times> 'e JSContext) option"
  set_override ::
    "('e JSContext \<Rightarrow> PropNameID \<Rightarrow> Value \<Rightarrow> (cpp_exception + unit) \<times> 'e JSContext) option"
  getPropertyNames_override ::
    "('e JSContext \<Rightarrow> (cpp_exception + PropNameID list) \<times> 'e JSContext) option"

definition HostObject_get ::
  "'e HostObject \<Rightarrow> 'e JSContext \<Rightarrow> PropNameID \<Rightarrow> (cpp_exception + Value) \<times> 'e JSContext" where
  "HostObject_get ho rt name =
     (case get_override ho of
        None \<Rightarrow> HostObject_get_default rt name
      | Some g \<Rightarrow> g rt name)"

definition HostObject_set ::
  "'e HostObject \<Rightarrow> 'e JSContext \<Rightarrow> PropNameID \<Rightarrow> Value \<Rightarrow> (cpp_exception + unit) \<times> 'e JSContext" where
  "HostObject_set ho rt name v =
     (case set_override ho of
        None \<Rightarrow> HostObject_set_default rt name v
      | Some g \<Rightarrow> g rt name v)"

definition HostObject_getPropertyNames ::
  "'e HostObject \<Rightarrow> 'e JSContext \<Rightarrow> (cpp_exception + PropNameID list) \<times> 'e JSContext" where
  "HostObject_getPropertyNames ho rt =
     (case getPropertyNames_override ho of
        None \<Rightarrow> HostObject_getPropertyNames_default rt
      | Some g \<Rightarrow> g rt)"

text \<open>A host object that overrides nothing, and one that overrides \<open>get\<close> only.\<close>

definition plain_HostObject :: "unit HostObject" where
  "plain_HostObject =
     \<lparr>get_override = None, set_override = None, getPropertyNames_override = None\<rparr>"

definition answering_HostObject :: "unit HostObject" where
  "answering_HostObject =
     \<lparr>get_override = Some (\<lambda>rt name. (Inr (Boolean True), rt)),
      set_override = None, getPropertyNames_override = None\<rparr>"

subsection \<open>Host functions\<close>

text \<open>
  \<^verbatim>\<open>using HostFunctionType = std::function<Value(
      JSContext &rt, const Value &thisVal, const Value *args, size_t count)>;\<close>
  The array \<open>args\<close> of length \<open>count\<close> is a list. The function returns a value or
  throws.
\<close>

type_synonym 'e HostFunctionType =
  "'e JSContext \<Rightarrow> Value \<Rightarrow> Value list \<Rightarrow> (cpp_exception + Value) \<times> 'e JSContext"

text \<open>A host function that throws the given exception whenever it is called.\<close>

definition throwing_HostFunction :: "cpp_exception \<Rightarrow> unit HostFunctionType" where
  "throwing_HostFunction x = (\<lambda>rt thisVal args. (Inl x, rt))"

text \<open>
  Modelled from the spec: on the JavaScript side a function either returns a value or
  throws a JavaScript \<open>Error\<close> object, which has a class and a message.
\<close>

datatype js_Error = js_Error error_class string

type_synonym 'e js_function =
  "'e JSContext \<Rightarrow> Value \<Rightarrow> Value list \<Rightarrow> (js_Error + Value) \<times> 'e JSContext"

text \<open>
  Modelled from the spec: the standard exception-message accessor, \<open>what()\<close> of a
  thrown object that extends \<open>std::exception\<close> (\<open>JSError\<close> does, and its text
  is taken to be its message); any other thrown object has none.
\<close>

fun what :: "cpp_exception \<Rightarrow> string option" where
  "what (JSError c m) = Some m"
| "what (StdException w) = Some w"
| "what OtherException = None"

text \<open>
  Modelled from the spec: the message of the Error made for a thrown object that has no
  \<open>what()\<close>. The spec calls it generic and does not give its text.
\<close>

definition generic_message :: string where
  "generic_message = ''Exception in HostFunction: <unknown>''"

text \<open>
  Modelled from the spec: the body of \<open>createFunctionFromHostFunction\<close>, pure virtual
  in the header and implemented by each engine. Spec, section 4.3: it installs a native
  callable; an invocation calls \<open>fn(ctx, thisVal, args, count)\<close>; a native exception
  thrown inside \<open>fn\<close> is caught at this boundary and re-raised into JS as an Error,
  its message taken from a standard exception-message accessor when available, else
  generic. The header's comment on \<open>HostFunctionType\<close> says the same. The result is the
  JavaScript function installed; the name and the parameter count do not change what a
  call does.
\<close>

definition createFunctionFromHostFunction ::
  "PropNameID \<Rightarrow> nat \<Rightarrow> 'e HostFunctionType \<Rightarrow> 'e js_function" where
  "createFunctionFromHostFunction name paramCount func =
     (\<lambda>rt thisVal args.
        case func rt thisVal args of
          (Inr v, rt') \<Rightarrow> (Inr v, rt')
        | (Inl x, rt') \<Rightarrow>
            (Inl (js_Error GenericError
                    (case what x of Some m \<Rightarrow> m | None \<Rightarrow> generic_message)), rt'))"

text \<open>
  Modelled from the spec: the body of \<open>call\<close>, pure virtual in the header. Spec,
  sections 4.3 and 7: \<open>call(thisVal, args, count)\<close> runs the function; a JavaScript
  exception it throws surfaces to native code as an EvaluationError (the class
  \<open>JSError\<close>) carrying the JS Error's message.
\<close>

definition call ::
  "'e js_function \<Rightarrow> 'e JSContext \<Rightarrow> Value \<Rightarrow> Value list \<Rightarrow> (cpp_exception + Value) \<times> 'e JSContext" where
  "call f rt jsThis args =
     (case f rt jsThis args of
        (Inr v, rt') \<Rightarrow> (Inr v, rt')
      | (Inl (js_Error c m), rt') \<Rightarrow> (Inl (JSError c m), rt'))"

subsection \<open>Strict equality\<close>

text \<open>
  Modelled from the spec: the engine's heap, as far as equality looks at it. Spec,
  section 3: a \<open>PointerValue\<close> aliases a JS heap entity, and cloning gives another
  cell for the same entity. \<open>entity\<close> maps a cell to the entity it aliases;
  \<open>string_content\<close> gives the content of a string entity.
\<close>

record js_heap =
  entity :: "PointerValue \<Rightarrow> nat"
  string_content :: "nat \<Rightarrow> string"

text \<open>
  The spec's equality of Numbers is IEEE-754 equality. A binary64 number has a sign bit,
  11 bits of biased exponent and 52 bits of fraction.
\<close>

definition sign :: "double \<Rightarrow> bool" where
  "sign d = bit d 63"

definition exponent :: "double \<Rightarrow> nat" where
  "exponent d = unat (take_bit 11 (drop_bit 52 d))"

definition fraction :: "double \<Rightarrow> nat" where
  "fraction d = unat (take_bit 52 d)"

text \<open>
  What the 64 bits denote: a NaN, an infinity with its sign, or a finite number, given as
  the integer multiple of \<open>2^-1074\<close> it is.
\<close>

datatype ieee_value = NaN | Infinity bool | Finite int

text \<open>
  The absolute value of a finite double in units of \<open>2^-1074\<close>: the fraction for
  exponent 0 (zeros and subnormal numbers), and \<open>(2^52 + fraction) * 2^(exponent - 1)\<close>
  for a normal number.
\<close>

definition magnitude :: "double \<Rightarrow> nat" where
  "magnitude d =
     (if exponent d = 0 then fraction d else (2 ^ 52 + fraction d) * 2 ^ (exponent d - 1))"

text \<open>Exponent 2047 is an infinity when the fraction is 0 and a NaN otherwise.\<close>

definition valof :: "double \<Rightarrow> ieee_value" where
  "valof d =
     (if exponent d = 2047 then (if fraction d = 0 then Infinity (sign d) else NaN)
      else Finite (if sign d then - int (magnitude d) else int (magnitude d)))"

text \<open>
  Modelled from the spec: IEEE-754 equality for Number (section 4.2). Two doubles are
  equal when neither is a NaN and they denote the same value.
\<close>

definition double_equals :: "double \<Rightarrow> double \<Rightarrow> bool" where
  "double_equals a b = (valof a \<noteq> NaN \<and> valof b \<noteq> NaN \<and> valof a = valof b)"

text \<open>The bit patterns of the NaNs and of the two zeros, and three constants.\<close>

definition is_NaN :: "double \<Rightarrow> bool" where
  "is_NaN d = (exponent d = 2047 \<and> fraction d \<noteq> 0)"

definition is_zero :: "double \<Rightarrow> bool" where
  "is_zero d = (exponent d = 0 \<and> fraction d = 0)"

definition positive_zero :: double where
  "positive_zero = 0"

definition negative_zero :: double where
  "negative_zero = 0x8000000000000000"

definition quiet_NaN :: double where
  "quiet_NaN = 0x7FF8000000000000"

text \<open>
  The header declares three overloads of \<open>strictEquals\<close>, pure virtual. Spec, section
  4.2: strict equality implements ECMAScript \<open>===\<close> per type, reference identity for
  Object and Symbol, content equality for String, IEEE-754 equality for Number.
\<close>

text \<open>
  Modelled from the spec: \<open>strictEquals\<close> on Symbols, reference identity: the two
  cells alias the same heap entity.
\<close>

definition strictEquals_Symbol :: "js_heap JSContext \<Rightarrow> Symbol \<Rightarrow> Symbol \<Rightarrow> bool" where
  "strictEquals_Symbol rt a b =
     (entity (engine rt) (Symbol_ptr a) = entity (engine rt) (Symbol_ptr b))"

text \<open>
  Modelled from the spec: \<open>strictEquals\<close> on Strings, content equality.
\<close>

definition strictEquals_String :: "js_heap JSContext \<Rightarrow> String \<Rightarrow> String \<Rightarrow> bool" where
  "strictEquals_String rt a b =
     (string_content (engine rt) (entity (engine rt) (String_ptr a))
        = string_content (engine rt) (entity (engine rt) (String_ptr b)))"

text \<open>
  Modelled from the spec: \<open>strictEquals\<close> on Objects, reference identity: the two
  cells alias the same heap entity.
\<close>

definition strictEquals_Object :: "js_heap JSContext \<Rightarrow> Object \<Rightarrow> Object \<Rightarrow> bool" where
  "strictEquals_Object rt a b =
     (entity (engine rt) (Object_ptr a) = entity (engine rt) (Object_ptr b))"

text \<open>
  Modelled from the spec: strict equality of two Values, defined outside the header:
  per type for two Values of the same type, and false for Values of different types, as
  ECMAScript \<open>===\<close> is.
\<close>

fun Value_strictEquals :: "js_heap JSContext \<Rightarrow> Value \<Rightarrow> Value \<Rightarrow> bool" where
  "Value_strictEquals rt Undefined Undefined = True"
| "Value_strictEquals rt Null Null = True"
| "Value_strictEquals rt (Boolean x) (Boolean y) = (x = y)"
| "Value_strictEquals rt (Number x) (Number y) = double_equals x y"
| "Value_strictEquals rt (StringValue x) (StringValue y) = strictEquals_String rt x y"
| "Value_strictEquals rt (SymbolValue x) (SymbolValue y) = strictEquals_Symbol rt x y"
| "Value_strictEquals rt (ObjectValue x) (ObjectValue y) = strictEquals_Object rt x y"
| "Value_strictEquals rt _ _ = False"

section \<open>Thread scope: results\<close>

lemma bindThreadScope_all_Nil: "bindThreadScope_all [] rt = rt"
  by (simp add: bindThreadScope_all_def)

lemma bindThreadScope_all_snoc:
  "bindThreadScope_all (ps @ [p]) rt = bindThreadScope p (bindThreadScope_all ps rt)"
  by (simp add: bindThreadScope_all_def)

lemma threadScope_result: "fst (threadScope rt) = get (thread_scope_ptr rt)"
  by (simp add: threadScope_def is_nullptr_def)

lemma thread_scope_ptr_bind_all:
  "thread_scope_ptr (bindThreadScope_all ps rt) =
     (if ps = [] then thread_scope_ptr rt else last ps)"
proof (induction ps rule: rev_induct)
  case Nil
  show ?case by (simp add: bindThreadScope_all_Nil)
next
  case (snoc p ps)
  show ?case by (simp add: bindThreadScope_all_snoc bindThreadScope_def)
qed

lemma engine_bind_all: "engine (bindThreadScope_all ps rt) = engine rt"
proof (induction ps rule: rev_induct)
  case Nil
  show ?case by (simp add: bindThreadScope_all_Nil)
next
  case (snoc p ps)
  then show ?case by (simp add: bindThreadScope_all_snoc bindThreadScope_def)
qed

text \<open>
  Claim C9. \<open>JSContext::threadScope()\<close> as written (null when the stored
  \<open>unique_ptr\<close> is null, the result of \<open>get()\<close> otherwise) is extensionally equal to
  the function that returns \<^verbatim>\<open>thread_scope_ptr_.get()\<close> with no test: on every state
  of the context the two return the same pointer (and leave the same state).
\<close>

theorem threadScope_eq_get_only: "threadScope rt = threadScope_get_only rt"
  by (simp add: threadScope_def threadScope_get_only_def is_nullptr_def)

text \<open>
  Claim C10. \<open>bindThreadScope\<close> changes the field \<open>thread_scope_ptr\<close> of the context
  and nothing else: the engine's state and any further part of the record are as before.
  \<open>threadScope()\<close> returns the state it was given, so two calls in a row, with no
  \<open>bindThreadScope\<close> between them, return the same pointer.
\<close>

theorem bindThreadScope_frame:
  "bindThreadScope p rt = rt\<lparr>thread_scope_ptr := p\<rparr>
   \<and> engine (bindThreadScope p rt) = engine rt
   \<and> JSContext.more (bindThreadScope p rt) = JSContext.more rt
   \<and> snd (threadScope rt) = rt
   \<and> (case threadScope rt of (p1, rt1) \<Rightarrow>
        case threadScope rt1 of (p2, rt2) \<Rightarrow> p1 = p2 \<and> rt2 = rt)"
  by (simp add: bindThreadScope_def threadScope_def)

text \<open>
  Claim C3, as stated: \<open>threadScope()\<close> returns null if and only if no
  \<open>bindThreadScope\<close> call has been made on the context. This fails: the argument of
  \<open>bindThreadScope\<close> is a \<open>unique_ptr\<close>, which may be empty, and after binding an
  empty one to a new context \<open>threadScope()\<close> returns null although a call was made.
\<close>

theorem threadScope_null_iff_unbound_counterexample:
  "\<not> (fst (threadScope (bindThreadScope_all [unique_ptr nullptr] (JSContext_new ()))) = nullptr
        \<longleftrightarrow> [unique_ptr nullptr :: ThreadScope unique_ptr] = [])"
  by (simp add: threadScope_result thread_scope_ptr_bind_all)

text \<open>
  Claim C3, amended. On a new context, after any sequence of \<open>bindThreadScope\<close> calls,
  \<open>threadScope()\<close> returns null when no call was made and otherwise the pointer of the
  \<open>unique_ptr\<close> passed to the most recent call (the last bound value wins); so it
  returns null if and only if no call was made or the most recent call passed an empty
  \<open>unique_ptr\<close>. On any context, whatever was bound before, \<open>threadScope()\<close> after
  a \<open>bindThreadScope\<close> returns the pointer just bound: the context holds one
  registration at a time.
\<close>

theorem threadScope_last_bound_wins:
  "fst (threadScope (bindThreadScope_all ps (JSContext_new e))) =
     (if ps = [] then nullptr else get (last ps))
   \<and> (fst (threadScope (bindThreadScope_all ps (JSContext_new e))) = nullptr
        \<longleftrightarrow> ps = [] \<or> get (last ps) = nullptr)
   \<and> fst (threadScope (bindThreadScope_all (ps @ [p]) rt)) = get p"
  by (simp add: threadScope_result thread_scope_ptr_bind_all JSContext_new_def)

section \<open>Scope: results\<close>

lemma Scope_ctor_calls:
  "Scope_ctor vt st =
     (case pushScope vt (ctx st) of
        (Inl x, rt1) \<Rightarrow>
          (Inl x, \<lparr>ctx = rt1, calls = calls st @ [Call_pushScope (Inl x)]\<rparr>)
      | (Inr p, rt1) \<Rightarrow>
          (Inr \<lparr>prv = p\<rparr>, \<lparr>ctx = rt1, calls = calls st @ [Call_pushScope (Inr p)]\<rparr>))"
  by (simp add: Scope_ctor_def call_pushScope_def split: prod.splits sum.splits)

lemma Scope_dtor_calls:
  "Scope_dtor vt s st =
     (case popScope vt (prv s) (ctx st) of
        (None, rt1) \<Rightarrow>
          (Returns (), \<lparr>ctx = rt1, calls = calls st @ [Call_popScope (prv s)]\<rparr>)
      | (Some x, rt1) \<Rightarrow>
          (Terminates, \<lparr>ctx = rt1, calls = calls st @ [Call_popScope (prv s)]\<rparr>))"
  by (simp add: Scope_dtor_def call_popScope_def split: prod.splits option.splits)


lemma Scope_dtor_not_Throws: "fst (Scope_dtor vt s st) \<noteq> Throws x"
  by (simp add: Scope_dtor_calls split: prod.splits option.splits)






text \<open>
  Claim C2, as stated: for every context and every \<open>f\<close>, \<open>callInNewScope(rt, f)\<close>
  invokes \<open>f\<close> exactly once and returns the value \<open>f\<close> returns. This fails on a
  context whose \<open>pushScope\<close> throws: the constructor of the \<open>Scope\<close> throws, \<open>f\<close>
  is never called, and although \<open>f\<close> would return \<open>True\<close> the call ends with the
  exception of \<open>pushScope\<close>.
\<close>

theorem callInNewScope_pushScope_throws_counterexample:
  "callInNewScope refusing_vtable returning_True run0 =
     (Throws OtherException,
      \<lparr>ctx = JSContext_new 0, calls = [Call_pushScope (Inl OtherException)]\<rparr>)
   \<and> count_list (calls (snd (callInNewScope refusing_vtable returning_True run0))) Call_f = 0
   \<and> fst (returning_True (JSContext_new 0)) = Inr True
   \<and> fst (callInNewScope refusing_vtable returning_True run0) \<noteq> Returns True"
  by (simp add: callInNewScope_def Scope_ctor_calls refusing_vtable_def run0_def
      returning_True_def)

text \<open>
  Claim C2, amended. When \<open>pushScope\<close> returns, \<open>callInNewScope(rt, f)\<close> makes
  exactly three calls, \<open>pushScope\<close>, then \<open>f\<close> once on the context as \<open>pushScope\<close>
  left it, then \<open>popScope\<close> with the pointer \<open>pushScope\<close> returned, whether \<open>f\<close>
  returns or throws; and when that \<open>popScope\<close> returns, the outcome is the outcome of
  \<open>f\<close>, the value it returned or the exception it threw. When \<open>pushScope\<close> throws,
  \<open>f\<close> is not called, \<open>popScope\<close> is not called, and the exception of
  \<open>pushScope\<close> leaves \<open>callInNewScope\<close>. When \<open>popScope\<close> throws, the program
  is terminated.
\<close>

theorem callInNewScope_outcome:
  "callInNewScope vt f st =
     (case pushScope vt (ctx st) of
        (Inl x, rt1) \<Rightarrow>
          (Throws x, \<lparr>ctx = rt1, calls = calls st @ [Call_pushScope (Inl x)]\<rparr>)
      | (Inr p, rt1) \<Rightarrow>
          (case f rt1 of
             (r, rt2) \<Rightarrow>
               (case popScope vt p rt2 of
                  (None, rt3) \<Rightarrow>
                    ((case r of Inl x \<Rightarrow> Throws x | Inr v \<Rightarrow> Returns v),
                     \<lparr>ctx = rt3,
                      calls = calls st @ [Call_pushScope (Inr p), Call_f, Call_popScope p]\<rparr>)
                | (Some y, rt3) \<Rightarrow>
                    (Terminates,
                     \<lparr>ctx = rt3,
                      calls = calls st @ [Call_pushScope (Inr p), Call_f, Call_popScope p]\<rparr>))))"
  by (simp add: callInNewScope_def Scope_ctor_calls Scope_dtor_calls call_f_def
      split: prod.splits sum.splits option.splits)

theorem callInNewScope_outcome_witness:
  "callInNewScope counting_vtable returning_True run0 =
     (Returns True,
      \<lparr>ctx = \<lparr>engine = 1, thread_scope_ptr = unique_ptr nullptr\<rparr>,
       calls = [Call_pushScope (Inr (Ptr (ScopeState 0))), Call_f,
                Call_popScope (Ptr (ScopeState 0))]\<rparr>)"
  using callInNewScope_outcome[of counting_vtable returning_True run0]
  by (simp add: counting_vtable_def run0_def returning_True_def JSContext_new_def)

text \<open>On a context whose \<open>popScope\<close> throws, the three calls are made and the program is
  terminated.\<close>

lemma callInNewScope_pop_throws:
  "callInNewScope pop_throwing_vtable returning_True run0 =
     (Terminates,
      \<lparr>ctx = \<lparr>engine = 1, thread_scope_ptr = unique_ptr nullptr\<rparr>,
       calls = [Call_pushScope (Inr (Ptr (ScopeState 0))), Call_f,
                Call_popScope (Ptr (ScopeState 0))]\<rparr>)"
  by (simp add: callInNewScope_def Scope_ctor_calls Scope_dtor_calls call_f_def
      pop_throwing_vtable_def run0_def returning_True_def JSContext_new_def)





section \<open>HostObject defaults: results\<close>

text \<open>
  Claim C4. For a host object that does not override the method: \<open>get\<close> returns the
  undefined Value for every property name; \<open>set\<close> fails with a \<open>JSError\<close> of class
  \<open>TypeError\<close> for every name and value; \<open>getPropertyNames\<close> returns the empty
  list. None of the three changes the context.
\<close>

theorem HostObject_defaults:
  "(get_override ho = None \<longrightarrow> HostObject_get ho rt name = (Inr Undefined, rt))
   \<and> (set_override ho = None \<longrightarrow>
        (\<exists>msg. HostObject_set ho rt name v = (Inl (JSError TypeError msg), rt)))
   \<and> (getPropertyNames_override ho = None \<longrightarrow>
        HostObject_getPropertyNames ho rt = (Inr [], rt))"
  by (simp add: HostObject_get_def HostObject_set_def HostObject_getPropertyNames_def
      HostObject_get_default_def HostObject_set_default_def
      HostObject_getPropertyNames_default_def)

theorem HostObject_defaults_witness:
  "get_override plain_HostObject = None
   \<and> set_override plain_HostObject = None
   \<and> getPropertyNames_override plain_HostObject = None
   \<and> HostObject_get plain_HostObject (JSContext_new ()) (PropNameID (PointerValue 0))
       = (Inr Undefined, JSContext_new ())
   \<and> (\<exists>msg. HostObject_set plain_HostObject (JSContext_new ()) (PropNameID (PointerValue 0))
               (Number 0) = (Inl (JSError TypeError msg), JSContext_new ()))
   \<and> HostObject_getPropertyNames plain_HostObject (JSContext_new ()) = (Inr [], JSContext_new ())"
  using HostObject_defaults[of plain_HostObject "JSContext_new ()"
      "PropNameID (PointerValue 0)" "Number 0"]
  by (simp add: plain_HostObject_def)

text \<open>An override is what runs when there is one; the other methods keep their defaults.\<close>

lemma answering_HostObject_get:
  "HostObject_get answering_HostObject rt name = (Inr (Boolean True), rt)
   \<and> HostObject_getPropertyNames answering_HostObject rt = (Inr [], rt)"
  by (simp add: HostObject_get_def HostObject_getPropertyNames_def answering_HostObject_def
      HostObject_getPropertyNames_default_def)

section \<open>Host functions: results\<close>

text \<open>
  Claim C6. When the native callable given to \<open>createFunctionFromHostFunction\<close> throws
  an exception \<open>x\<close>, a call of the created function throws, into JavaScript, an Error
  whose message is \<open>what()\<close> of \<open>x\<close> when \<open>x\<close> has one and the generic message
  otherwise; and when native code made that call through \<open>call\<close>, what it gets is a
  \<open>JSError\<close> with that message, not \<open>x\<close>.
\<close>

theorem HostFunction_exception_becomes_JSError:
  "func rt thisVal args = (Inl x, rt') \<Longrightarrow>
     createFunctionFromHostFunction name paramCount func rt thisVal args =
       (Inl (js_Error GenericError
               (case what x of Some m \<Rightarrow> m | None \<Rightarrow> generic_message)), rt')
     \<and> call (createFunctionFromHostFunction name paramCount func) rt thisVal args =
         (Inl (JSError GenericError
                 (case what x of Some m \<Rightarrow> m | None \<Rightarrow> generic_message)), rt')"
  by (simp add: createFunctionFromHostFunction_def call_def)

theorem HostFunction_exception_becomes_JSError_witness:
  "throwing_HostFunction (StdException ''boom'') (JSContext_new ()) Undefined []
     = (Inl (StdException ''boom''), JSContext_new ())
   \<and> createFunctionFromHostFunction (PropNameID (PointerValue 0)) 0
        (throwing_HostFunction (StdException ''boom'')) (JSContext_new ()) Undefined []
       = (Inl (js_Error GenericError ''boom''), JSContext_new ())
   \<and> call (createFunctionFromHostFunction (PropNameID (PointerValue 0)) 0
              (throwing_HostFunction (StdException ''boom''))) (JSContext_new ()) Undefined []
       = (Inl (JSError GenericError ''boom''), JSContext_new ())"
proof -
  have h: "throwing_HostFunction (StdException ''boom'') (JSContext_new ()) Undefined []
             = (Inl (StdException ''boom''), JSContext_new ())"
    by (simp add: throwing_HostFunction_def)
  show ?thesis
    using h HostFunction_exception_becomes_JSError[of
        "throwing_HostFunction (StdException ''boom'')" "JSContext_new ()" Undefined "[]"
        "StdException ''boom''" "JSContext_new ()" "PropNameID (PointerValue 0)" 0]
    by simp
qed

text \<open>A thrown object with no \<open>what()\<close> gives the generic message.\<close>

lemma HostFunction_other_exception:
  "call (createFunctionFromHostFunction name paramCount (throwing_HostFunction OtherException))
     (JSContext_new ()) Undefined []
   = (Inl (JSError GenericError generic_message), JSContext_new ())"
  by (simp add: createFunctionFromHostFunction_def call_def throwing_HostFunction_def)

section \<open>Strict equality: results\<close>

lemma fraction_less: "fraction d < 2 ^ 52"
proof -
  have "take_bit 52 (unat d) < 2 ^ 52"
    by (rule take_bit_nat_less_exp)
  then show ?thesis
    by (simp only: fraction_def unsigned_take_bit_eq)
qed

lemma double_eqI:
  assumes "sign a = sign b" "exponent a = exponent b" "fraction a = fraction b"
  shows "a = b"
proof (rule bit_word_eqI)
  fix n assume n: "n < LENGTH(64)"
  from assms(2) have e: "take_bit 11 (drop_bit 52 a) = take_bit 11 (drop_bit 52 b)"
    unfolding exponent_def by (rule unsigned_word_eqI)
  from assms(3) have f: "take_bit 52 a = take_bit 52 b"
    unfolding fraction_def by (rule unsigned_word_eqI)
  consider "n < 52" | "52 \<le> n" "n < 63" | "n = 63" using n by fastforce
  then show "bit a n = bit b n"
  proof cases
    case 1
    have "bit (take_bit 52 a) n = bit (take_bit 52 b) n" using f by simp
    then show ?thesis using 1 by (simp add: bit_take_bit_iff)
  next
    case 2
    have "bit (take_bit 11 (drop_bit 52 a)) (n - 52) = bit (take_bit 11 (drop_bit 52 b)) (n - 52)"
      using e by simp
    moreover have "n - 52 < 11" using 2 by linarith
    ultimately show ?thesis using 2 by (simp add: bit_take_bit_iff bit_drop_bit_eq)
  next
    case 3
    then show ?thesis using assms(1) by (simp add: sign_def)
  qed
qed

lemma subnormal_less_normal:
  fixes f g c k :: nat
  assumes "f < c"
  shows "f < (c + g) * 2 ^ k"
proof -
  have "f < c + g" using assms by simp
  also have "\<dots> = (c + g) * 1" by simp
  also have "\<dots> \<le> (c + g) * 2 ^ k" by (rule mult_le_mono2) simp
  finally show ?thesis .
qed

lemma normal_magnitude_less:
  fixes f f' c e e' :: nat
  assumes "f < c" "e < e'"
  shows "(c + f) * 2 ^ e < (c + f') * 2 ^ e'"
proof -
  have "(c + f) * 2 ^ e < (c + c) * 2 ^ e" using assms(1) by simp
  also have "\<dots> = c * 2 ^ (Suc e)" by (simp add: algebra_simps)
  also have "\<dots> \<le> c * 2 ^ e'" using assms(2)
    by (intro mult_le_mono2 power_increasing) simp_all
  also have "\<dots> \<le> (c + f') * 2 ^ e'" by simp
  finally show ?thesis .
qed

lemma magnitude_eq_0_iff: "magnitude d = 0 \<longleftrightarrow> is_zero d"
  by (auto simp: magnitude_def is_zero_def)

lemma magnitude_inj:
  assumes "magnitude a = magnitude b"
  shows "exponent a = exponent b \<and> fraction a = fraction b"
proof -
  have fa: "fraction a < 2 ^ 52" and fb: "fraction b < 2 ^ 52" by (rule fraction_less)+
  consider "exponent a = 0" "exponent b = 0" | "exponent a = 0" "exponent b \<noteq> 0"
    | "exponent a \<noteq> 0" "exponent b = 0" | "exponent a \<noteq> 0" "exponent b \<noteq> 0" by blast
  then show ?thesis
  proof cases
    case 1
    then show ?thesis using assms by (simp add: magnitude_def)
  next
    case 2
    have "fraction a < (2 ^ 52 + fraction b) * 2 ^ (exponent b - 1)"
      using fa by (rule subnormal_less_normal)
    then show ?thesis using assms 2 by (simp add: magnitude_def)
  next
    case 3
    have "fraction b < (2 ^ 52 + fraction a) * 2 ^ (exponent a - 1)"
      using fb by (rule subnormal_less_normal)
    then show ?thesis using assms 3 by (simp add: magnitude_def)
  next
    case 4
    with assms have m: "(2 ^ 52 + fraction a) * 2 ^ (exponent a - 1)
                      = (2 ^ 52 + fraction b) * 2 ^ (exponent b - 1)"
      by (simp add: magnitude_def)
    have "\<not> exponent a - 1 < exponent b - 1"
      using normal_magnitude_less[OF fa, of "exponent a - 1" "exponent b - 1" "fraction b"] m by auto
    moreover have "\<not> exponent b - 1 < exponent a - 1"
      using normal_magnitude_less[OF fb, of "exponent b - 1" "exponent a - 1" "fraction a"] m by auto
    ultimately have e: "exponent a - 1 = exponent b - 1" by linarith
    with 4 have "exponent a = exponent b" by linarith
    moreover from m e have "fraction a = fraction b" by simp
    ultimately show ?thesis by simp
  qed
qed

lemma valof_NaN_iff: "valof d = NaN \<longleftrightarrow> is_NaN d"
  by (simp add: valof_def is_NaN_def)

lemma valof_eq_cases:
  assumes "valof a = valof b" "\<not> is_NaN a"
  shows "a = b \<or> (is_zero a \<and> is_zero b)"
proof (cases "exponent a = 2047")
  case True
  with assms have "exponent b = 2047 \<and> fraction a = 0 \<and> fraction b = 0 \<and> sign a = sign b"
    by (auto simp: valof_def is_NaN_def split: if_splits)
  with True show ?thesis by (simp add: double_eqI)
next
  case False
  with assms have eb: "exponent b \<noteq> 2047"
    by (auto simp: valof_def split: if_splits)
  from assms False eb have v:
    "(if sign a then - int (magnitude a) else int (magnitude a))
      = (if sign b then - int (magnitude b) else int (magnitude b))"
    by (simp add: valof_def)
  show ?thesis
  proof (cases "magnitude a = 0")
    case True
    with v have "magnitude b = 0" by (auto split: if_splits)
    with True show ?thesis by (simp add: magnitude_eq_0_iff)
  next
    case False
    with v have "sign a = sign b \<and> magnitude a = magnitude b"
      by (auto split: if_splits)
    then show ?thesis using magnitude_inj[of a b] by (simp add: double_eqI)
  qed
qed

lemma valof_zero: "is_zero d \<Longrightarrow> valof d = Finite 0"
  by (simp add: is_zero_def valof_def magnitude_def)

lemma double_equals_iff:
  "double_equals a b \<longleftrightarrow> \<not> is_NaN a \<and> \<not> is_NaN b \<and> (a = b \<or> (is_zero a \<and> is_zero b))"
  using valof_eq_cases[of a b] by (auto simp: double_equals_def valof_NaN_iff valof_zero)

lemma quiet_NaN_is_NaN: "is_NaN quiet_NaN"
  by (simp add: is_NaN_def exponent_def fraction_def quiet_NaN_def)

lemma zeros_are_zero: "is_zero positive_zero \<and> is_zero negative_zero"
  by (simp add: is_zero_def exponent_def fraction_def positive_zero_def negative_zero_def)

lemma zeros_not_NaN: "\<not> is_NaN positive_zero \<and> \<not> is_NaN negative_zero"
  by (simp add: is_NaN_def exponent_def fraction_def positive_zero_def negative_zero_def)

text \<open>
  Claim C8. Strict equality of two Values of one type: two Objects, or two Symbols, are
  strictly equal exactly when their cells alias the same heap entity; two Strings exactly
  when their contents are equal; two Numbers exactly when neither is a NaN and they
  denote the same value, which on the bits means: neither is a NaN, and they are the same
  bits or both are zeros. So no NaN is strictly equal to itself, and \<open>+0\<close> and \<open>-0\<close>,
  which differ in the sign bit, are strictly equal.
\<close>

theorem Value_strictEquals_per_type:
  "(Value_strictEquals rt (ObjectValue a) (ObjectValue b)
      \<longleftrightarrow> entity (engine rt) (Object_ptr a) = entity (engine rt) (Object_ptr b))
   \<and> (Value_strictEquals rt (SymbolValue s) (SymbolValue t)
      \<longleftrightarrow> entity (engine rt) (Symbol_ptr s) = entity (engine rt) (Symbol_ptr t))
   \<and> (Value_strictEquals rt (StringValue u) (StringValue v)
      \<longleftrightarrow> string_content (engine rt) (entity (engine rt) (String_ptr u))
            = string_content (engine rt) (entity (engine rt) (String_ptr v)))
   \<and> (Value_strictEquals rt (Number x) (Number y)
      \<longleftrightarrow> valof x \<noteq> NaN \<and> valof y \<noteq> NaN \<and> valof x = valof y)
   \<and> (Value_strictEquals rt (Number x) (Number y)
      \<longleftrightarrow> \<not> is_NaN x \<and> \<not> is_NaN y \<and> (x = y \<or> (is_zero x \<and> is_zero y)))
   \<and> (Value_strictEquals rt (Number x) (Number x) \<longleftrightarrow> \<not> is_NaN x)
   \<and> is_NaN quiet_NaN
   \<and> \<not> Value_strictEquals rt (Number quiet_NaN) (Number quiet_NaN)
   \<and> positive_zero \<noteq> negative_zero
   \<and> Value_strictEquals rt (Number positive_zero) (Number negative_zero)"
proof -
  have handles:
    "(Value_strictEquals rt (ObjectValue a) (ObjectValue b)
        \<longleftrightarrow> entity (engine rt) (Object_ptr a) = entity (engine rt) (Object_ptr b))
     \<and> (Value_strictEquals rt (SymbolValue s) (SymbolValue t)
        \<longleftrightarrow> entity (engine rt) (Symbol_ptr s) = entity (engine rt) (Symbol_ptr t))
     \<and> (Value_strictEquals rt (StringValue u) (StringValue v)
        \<longleftrightarrow> string_content (engine rt) (entity (engine rt) (String_ptr u))
              = string_content (engine rt) (entity (engine rt) (String_ptr v)))"
    by (simp add: strictEquals_Object_def strictEquals_Symbol_def strictEquals_String_def)
  have by_value:
    "Value_strictEquals rt (Number x) (Number y)
       \<longleftrightarrow> valof x \<noteq> NaN \<and> valof y \<noteq> NaN \<and> valof x = valof y"
    by (simp add: double_equals_def)
  have by_bits:
    "Value_strictEquals rt (Number x) (Number y)
       \<longleftrightarrow> \<not> is_NaN x \<and> \<not> is_NaN y \<and> (x = y \<or> (is_zero x \<and> is_zero y))"
    by (simp add: double_equals_iff)
  have refl: "Value_strictEquals rt (Number x) (Number x) \<longleftrightarrow> \<not> is_NaN x"
    by (simp add: double_equals_iff)
  have nan: "\<not> Value_strictEquals rt (Number quiet_NaN) (Number quiet_NaN)"
    using quiet_NaN_is_NaN by (simp add: double_equals_iff)
  have distinct: "positive_zero \<noteq> negative_zero"
    by (simp add: positive_zero_def negative_zero_def)
  have zeros: "Value_strictEquals rt (Number positive_zero) (Number negative_zero)"
    using zeros_are_zero zeros_not_NaN by (simp add: double_equals_iff)
  from handles by_value by_bits refl quiet_NaN_is_NaN nan distinct zeros
  show ?thesis by blast
qed

text \<open>Values of different types are never strictly equal; an example.\<close>

lemma Value_strictEquals_mixed:
  "\<not> Value_strictEquals rt (Number positive_zero) (Boolean False)
   \<and> \<not> Value_strictEquals rt Undefined Null"
  by simp

end
